theory Spec2Isabelle
  imports Complex_Main "HOL-Library.AList"
begin

section \<open>Performance monitoring of the model registry (performance.py)\<close>

text \<open>
  A shallow embedding of \<^verbatim>\<open>src/performance.py\<close> and of the part of
  \<^verbatim>\<open>src/models.py\<close> it reads. Python floats are modelled as exact reals;
  a Python \<^verbatim>\<open>dict\<close> is an association list in insertion order, read with
  \<open>map_of\<close> and written with \<open>AList.update\<close>; what the host and the random source
  deliver is an explicit argument (\<open>env\<close>); an exception is a value of \<open>py_error\<close>.
\<close>

subsection \<open>Data model\<close>

datatype py_error = ZeroDivisionError | Exception string

datatype pyval = PyStr string | PyFloat real | PyNone

text \<open>\<^verbatim>\<open>models.ModelInfo\<close>, with the fields as they are after construction.\<close>

record ModelInfo =
  name :: string
  task_type :: string
  library :: string
  size_mb :: "real option"
  downloads :: "int option"
  last_modified :: "string option"
  tags :: "string list"

text \<open>\<^verbatim>\<open>performance.PerformanceMetrics\<close>.\<close>

record PerformanceMetrics =
  model_name :: string
  timestamp :: string
  memory_usage_mb :: real
  cpu_usage_percent :: real
  inference_time_ms :: real
  throughput_tokens_per_sec :: real
  model_size_mb :: real
  gpu_usage_percent :: "real option"
  error_rate :: real
  status :: string

definition to_dict :: "PerformanceMetrics \<Rightarrow> (string \<times> pyval) list" where
  "to_dict m =
     [(''model_name'', PyStr (model_name m)),
      (''timestamp'', PyStr (timestamp m)),
      (''memory_usage_mb'', PyFloat (memory_usage_mb m)),
      (''cpu_usage_percent'', PyFloat (cpu_usage_percent m)),
      (''inference_time_ms'', PyFloat (inference_time_ms m)),
      (''throughput_tokens_per_sec'', PyFloat (throughput_tokens_per_sec m)),
      (''model_size_mb'', PyFloat (model_size_mb m)),
      (''gpu_usage_percent'', (case gpu_usage_percent m of None \<Rightarrow> PyNone | Some g \<Rightarrow> PyFloat g)),
      (''error_rate'', PyFloat (error_rate m)),
      (''status'', PyStr (status m))]"

text \<open>The alert dictionaries built by \<^verbatim>\<open>_check_thresholds\<close>, one field per key.\<close>

record alert =
  alert_type :: string
  alert_metric :: string
  alert_value :: real
  alert_threshold :: real
  alert_model :: string
  alert_timestamp :: string
  alert_severity :: string

type_synonym thresholds = "(string \<times> real) list"

text \<open>The state of a \<^verbatim>\<open>PerformanceMonitor\<close>.\<close>

record monitor =
  performance_history :: "(string \<times> PerformanceMetrics list) list"
  alerts :: "alert list"
  thresholds :: thresholds

definition default_thresholds :: thresholds where
  "default_thresholds =
     [(''max_memory_mb'', 2048),
      (''max_cpu_percent'', 80),
      (''max_inference_time_ms'', 1000),
      (''min_throughput_tokens_per_sec'', 50),
      (''max_error_rate'', 10)]"

definition init_monitor :: monitor where
  "init_monitor = \<lparr>performance_history = [], alerts = [], thresholds = default_thresholds\<rparr>"

subsection \<open>\<^verbatim>\<open>PerformanceMonitor._check_thresholds\<close>\<close>

definition checks :: "PerformanceMetrics \<Rightarrow> (string \<times> real \<times> string) list" where
  "checks metrics =
     [(''memory_usage_mb'', memory_usage_mb metrics, ''max_memory_mb''),
      (''cpu_usage_percent'', cpu_usage_percent metrics, ''max_cpu_percent''),
      (''inference_time_ms'', inference_time_ms metrics, ''max_inference_time_ms''),
      (''error_rate'', error_rate metrics, ''max_error_rate'')]"

definition exceeded_alert :: "PerformanceMetrics \<Rightarrow> string \<Rightarrow> real \<Rightarrow> real \<Rightarrow> alert" where
  "exceeded_alert metrics metric_name v threshold =
     \<lparr>alert_type = ''threshold_exceeded'',
      alert_metric = metric_name,
      alert_value = v,
      alert_threshold = threshold,
      alert_model = model_name metrics,
      alert_timestamp = timestamp metrics,
      alert_severity = (if v > threshold * 1.5 then ''high'' else ''medium'')\<rparr>"

definition throughput_alert :: "PerformanceMetrics \<Rightarrow> real \<Rightarrow> alert" where
  "throughput_alert metrics min_throughput =
     \<lparr>alert_type = ''throughput_low'',
      alert_metric = ''throughput_tokens_per_sec'',
      alert_value = throughput_tokens_per_sec metrics,
      alert_threshold = min_throughput,
      alert_model = model_name metrics,
      alert_timestamp = timestamp metrics,
      alert_severity = ''medium''\<rparr>"

text \<open>
  The \<^verbatim>\<open>for\<close> loop over \<^verbatim>\<open>checks\<close>. \<^verbatim>\<open>self.thresholds.get(key)\<close> is \<open>map_of\<close>;
  the test \<^verbatim>\<open>threshold and value > threshold\<close> is false for \<^verbatim>\<open>None\<close> and for zero.
\<close>

fun check_loop ::
  "thresholds \<Rightarrow> PerformanceMetrics \<Rightarrow> (string \<times> real \<times> string) list \<Rightarrow> alert list \<Rightarrow> alert list"
where
  "check_loop th metrics [] acc = acc"
| "check_loop th metrics ((metric_name, v, threshold_key) # cs) acc =
     check_loop th metrics cs
       (case map_of th threshold_key of
          None \<Rightarrow> acc
        | Some threshold \<Rightarrow>
            if threshold \<noteq> 0 \<and> v > threshold
            then acc @ [exceeded_alert metrics metric_name v threshold]
            else acc)"

definition check_thresholds :: "thresholds \<Rightarrow> PerformanceMetrics \<Rightarrow> alert list" where
  "check_thresholds th metrics =
     (let acc = check_loop th metrics (checks metrics) []
      in case map_of th ''min_throughput_tokens_per_sec'' of
           None \<Rightarrow> acc
         | Some min_throughput \<Rightarrow>
             if min_throughput \<noteq> 0 \<and> throughput_tokens_per_sec metrics < min_throughput
             then acc @ [throughput_alert metrics min_throughput]
             else acc)"

text \<open>
  The evaluator as the specification words it, over a table that gives every one of the
  five limits: a metric above its limit alerts, whatever the limit is.
\<close>

record threshold_table =
  max_memory_mb :: real
  max_cpu_percent :: real
  max_inference_time_ms :: real
  max_error_rate :: real
  min_throughput_tokens_per_sec :: real

definition table_of :: "threshold_table \<Rightarrow> thresholds" where
  "table_of T =
     [(''max_memory_mb'', max_memory_mb T),
      (''max_cpu_percent'', max_cpu_percent T),
      (''max_inference_time_ms'', max_inference_time_ms T),
      (''min_throughput_tokens_per_sec'', min_throughput_tokens_per_sec T),
      (''max_error_rate'', max_error_rate T)]"

definition spec_exceeded :: "PerformanceMetrics \<Rightarrow> string \<Rightarrow> real \<Rightarrow> real \<Rightarrow> alert list" where
  "spec_exceeded metrics metric_name v threshold =
     (if v > threshold
      then [\<lparr>alert_type = ''threshold_exceeded'', alert_metric = metric_name, alert_value = v,
             alert_threshold = threshold, alert_model = model_name metrics,
             alert_timestamp = timestamp metrics,
             alert_severity = (if v > 1.5 * threshold then ''high'' else ''medium'')\<rparr>]
      else [])"

definition spec_throughput_low :: "PerformanceMetrics \<Rightarrow> real \<Rightarrow> alert list" where
  "spec_throughput_low metrics min_throughput =
     (if throughput_tokens_per_sec metrics < min_throughput
      then [\<lparr>alert_type = ''throughput_low'', alert_metric = ''throughput_tokens_per_sec'',
             alert_value = throughput_tokens_per_sec metrics, alert_threshold = min_throughput,
             alert_model = model_name metrics, alert_timestamp = timestamp metrics,
             alert_severity = ''medium''\<rparr>]
      else [])"

definition spec_alerts :: "threshold_table \<Rightarrow> PerformanceMetrics \<Rightarrow> alert list" where
  "spec_alerts T metrics =
     spec_exceeded metrics ''memory_usage_mb'' (memory_usage_mb metrics) (max_memory_mb T) @
     spec_exceeded metrics ''cpu_usage_percent'' (cpu_usage_percent metrics) (max_cpu_percent T) @
     spec_exceeded metrics ''inference_time_ms'' (inference_time_ms metrics) (max_inference_time_ms T) @
     spec_exceeded metrics ''error_rate'' (error_rate metrics) (max_error_rate T) @
     spec_throughput_low metrics (min_throughput_tokens_per_sec T)"

subsection \<open>\<^verbatim>\<open>PerformanceMonitor._calculate_trends\<close>\<close>

text \<open>\<^verbatim>\<open>self.performance_history.get(model_name, [])\<close>.\<close>

definition history_get ::
  "(string \<times> PerformanceMetrics list) list \<Rightarrow> string \<Rightarrow> PerformanceMetrics list" where
  "history_get hist nm = (case map_of hist nm of None \<Rightarrow> [] | Some h \<Rightarrow> h)"

text \<open>
  \<^verbatim>\<open>history[-1]\<close> and \<^verbatim>\<open>history[-2]\<close> are read at \<open>length history - 1\<close> and
  \<open>length history - 2\<close>, behind the test that there are two samples. The result
  dictionary is filled key by key.
\<close>

definition calculate_trends :: "monitor \<Rightarrow> string \<Rightarrow> (string \<times> string) list" where
  "calculate_trends st nm =
     (let history = history_get (performance_history st) nm in
      if length history < 2 then [(''trend'', ''insufficient_data'')]
      else
        let recent = history ! (length history - 1);
            previous = history ! (length history - 2);
            trends = [];
            memory_change = memory_usage_mb recent - memory_usage_mb previous;
            trends = AList.update ''memory''
              (if memory_change > 10 then ''increasing''
               else if memory_change < - 10 then ''decreasing'' else ''stable'') trends;
            cpu_change = cpu_usage_percent recent - cpu_usage_percent previous;
            trends = AList.update ''cpu''
              (if cpu_change > 5 then ''increasing''
               else if cpu_change < - 5 then ''decreasing'' else ''stable'') trends;
            time_change = inference_time_ms recent - inference_time_ms previous;
            trends = AList.update ''performance''
              (if time_change > 50 then ''degrading''
               else if time_change < - 50 then ''improving'' else ''stable'') trends
        in trends)"

subsection \<open>\<^verbatim>\<open>PerformanceMonitor.track_performance\<close>\<close>

record tracking_result =
  tr_model_name :: string
  current_metrics :: "(string \<times> pyval) list"
  tr_alerts :: "alert list"
  trends :: "(string \<times> string) list"
  tr_status :: string

text \<open>
  The history of a new model is created empty and the sample is appended to it at once;
  \<open>AList.map_entry\<close> is the append to \<^verbatim>\<open>self.performance_history[model_name]\<close>, whose
  key the line before has made sure of. The trends are computed on the updated state.
\<close>

definition track_performance ::
  "monitor \<Rightarrow> string \<Rightarrow> PerformanceMetrics \<Rightarrow> tracking_result \<times> monitor" where
  "track_performance st nm metrics =
     (let hist0 = performance_history st;
          hist1 = (case map_of hist0 nm of None \<Rightarrow> AList.update nm [] hist0 | Some h \<Rightarrow> hist0);
          hist2 = AList.map_entry nm (\<lambda>h. h @ [metrics]) hist1;
          new_alerts = check_thresholds (thresholds st) metrics;
          st' = st\<lparr>performance_history := hist2, alerts := alerts st @ new_alerts\<rparr>;
          tr = calculate_trends st' nm
      in (\<lparr>tr_model_name = nm, current_metrics = to_dict metrics, tr_alerts = new_alerts,
           trends = tr, tr_status = status metrics\<rparr>, st'))"

text \<open>A caller tracking a sequence of samples for one model, one call after the other.\<close>

fun track_all :: "monitor \<Rightarrow> string \<Rightarrow> PerformanceMetrics list \<Rightarrow> monitor" where
  "track_all st nm [] = st"
| "track_all st nm (metrics # ms) = track_all (snd (track_performance st nm metrics)) nm ms"

text \<open>
  The states a monitor can be in: the one \<^verbatim>\<open>__init__\<close> builds, and what tracking a
  sample or replacing the threshold table makes of a state.
\<close>

inductive reachable :: "monitor \<Rightarrow> bool" where
  init: "reachable init_monitor"
| track: "reachable st \<Longrightarrow> reachable (snd (track_performance st nm metrics))"
| configure: "reachable st \<Longrightarrow> reachable (st\<lparr>thresholds := th\<rparr>)"

subsection \<open>\<^verbatim>\<open>PerformanceMonitor.get_model_summary\<close>\<close>

text \<open>\<^verbatim>\<open>sum(...)\<close> starts from 0 and adds from the left; \<^verbatim>\<open>/\<close> raises on a zero divisor.\<close>

definition py_sum :: "real list \<Rightarrow> real" where
  "py_sum xs = foldl (+) 0 xs"

definition py_truediv :: "real \<Rightarrow> real \<Rightarrow> py_error + real" where
  "py_truediv a b = (if b = 0 then Inl ZeroDivisionError else Inr (a / b))"

record averages =
  avg_memory_usage_mb :: real
  avg_cpu_usage_percent :: real
  avg_inference_time_ms :: real
  avg_throughput_tokens_per_sec :: real

record summary =
  s_model_name :: string
  latest_metrics :: "(string \<times> pyval) list"
  s_averages :: averages
  metrics_count :: nat
  alerts_count :: nat
  s_status :: string

text \<open>The two dictionaries the function returns: the error one, or the summary.\<close>

datatype summary_result = NoData string | Summary summary

definition get_model_summary :: "monitor \<Rightarrow> string \<Rightarrow> py_error + summary_result" where
  "get_model_summary st nm =
     (let history = history_get (performance_history st) nm in
      if history = [] then Inr (NoData ''No performance data available'')
      else
        let latest = history ! (length history - 1);
            n = real (length history)
        in case py_truediv (py_sum (map memory_usage_mb history)) n of
             Inl e \<Rightarrow> Inl e
           | Inr avg_memory \<Rightarrow>
         (case py_truediv (py_sum (map cpu_usage_percent history)) n of
             Inl e \<Rightarrow> Inl e
           | Inr avg_cpu \<Rightarrow>
         (case py_truediv (py_sum (map inference_time_ms history)) n of
             Inl e \<Rightarrow> Inl e
           | Inr avg_inference \<Rightarrow>
         (let total_throughput = py_sum (map throughput_tokens_per_sec history)
          in case py_truediv total_throughput n of
             Inl e \<Rightarrow> Inl e
           | Inr avg_throughput \<Rightarrow>
               let model_alerts = filter (\<lambda>a. alert_model a = nm) (alerts st)
               in Inr (Summary
                    \<lparr>s_model_name = nm,
                     latest_metrics = to_dict latest,
                     s_averages =
                       \<lparr>avg_memory_usage_mb = avg_memory,
                        avg_cpu_usage_percent = avg_cpu,
                        avg_inference_time_ms = avg_inference,
                        avg_throughput_tokens_per_sec = avg_throughput\<rparr>,
                     metrics_count = length history,
                     alerts_count = length model_alerts,
                     s_status = status latest\<rparr>)))))"

subsection \<open>\<^verbatim>\<open>PerformanceMonitor.get_system_overview\<close>\<close>

record system_overview =
  total_models_monitored :: nat
  total_metrics_collected :: nat
  total_alerts :: nat
  status_distribution :: "(string \<times> nat) list"
  monitoring_thresholds :: thresholds

text \<open>
  The loop over \<^verbatim>\<open>self.performance_history.values()\<close> that fills
  \<^verbatim>\<open>status_counts\<close>: an empty history is passed over.
\<close>

fun count_statuses ::
  "PerformanceMetrics list list \<Rightarrow> (string \<times> nat) list \<Rightarrow> (string \<times> nat) list" where
  "count_statuses [] status_counts = status_counts"
| "count_statuses (history # hs) status_counts =
     count_statuses hs
       (if history \<noteq> []
        then let s = status (history ! (length history - 1))
             in AList.update s ((case map_of status_counts s of None \<Rightarrow> 0 | Some c \<Rightarrow> c) + 1)
                  status_counts
        else status_counts)"

definition get_system_overview :: "monitor \<Rightarrow> system_overview" where
  "get_system_overview st =
     \<lparr>total_models_monitored = length (performance_history st),
      total_metrics_collected = foldl (+) 0 (map (\<lambda>(k, history). length history) (performance_history st)),
      total_alerts = length (alerts st),
      status_distribution = count_statuses (map snd (performance_history st)) [],
      monitoring_thresholds = thresholds st\<rparr>"

subsection \<open>\<^verbatim>\<open>MetricsCollector\<close>\<close>

text \<open>
  What a call of \<^verbatim>\<open>collect_metrics\<close> reads from outside the program: the outcome of the
  two \<^verbatim>\<open>psutil\<close> calls (the resident set size in bytes and the cpu percentage, or the
  exception raised), the draws of the \<^verbatim>\<open>secrets\<close> module, and the clock.
\<close>

record env =
  memory_probe :: "py_error + nat"
  cpu_probe :: "py_error + real"
  has_gpu :: bool
  gpu_draw :: real
  error_rate_draw :: real
  status_draw :: real
  now :: string

text \<open>
  Both getters catch every exception of their \<^verbatim>\<open>try\<close> body. Python gives
  \<^verbatim>\<open>model.size_mb\<close> the truth value false for \<^verbatim>\<open>None\<close> and for zero; this is the
  test \<open>s \<noteq> 0\<close> under \<open>Some\<close> below.
\<close>

definition get_memory_usage :: "env \<Rightarrow> real" where
  "get_memory_usage e =
     (case memory_probe e of Inr rss \<Rightarrow> real rss / 1024 / 1024 | Inl ex \<Rightarrow> 512.0)"

definition get_cpu_usage :: "env \<Rightarrow> real" where
  "get_cpu_usage e = (case cpu_probe e of Inr c \<Rightarrow> c | Inl ex \<Rightarrow> 25.0)"

definition get_gpu_usage :: "env \<Rightarrow> real option" where
  "get_gpu_usage e = (if has_gpu e then Some (gpu_draw e) else None)"

definition task_multipliers :: "(string \<times> real) list" where
  "task_multipliers =
     [(''text-generation'', 2.0),
      (''text-classification'', 1.0),
      (''question-answering'', 1.5),
      (''summarization'', 1.8),
      (''translation'', 1.6)]"

definition simulate_inference_time :: "ModelInfo \<Rightarrow> real" where
  "simulate_inference_time model =
     (let base_time = 50.0;
          base_time =
            (case size_mb model of
               None \<Rightarrow> base_time
             | Some s \<Rightarrow>
                 if s \<noteq> 0
                 then let size_factor = s / 1000 in base_time * (1 + size_factor * 0.5)
                 else base_time);
          multiplier = (case map_of task_multipliers (task_type model) of None \<Rightarrow> 1.0 | Some x \<Rightarrow> x)
      in base_time * multiplier)"

definition task_throughputs :: "(string \<times> real) list" where
  "task_throughputs =
     [(''text-generation'', 80.0),
      (''text-classification'', 200.0),
      (''question-answering'', 120.0),
      (''summarization'', 60.0),
      (''translation'', 90.0)]"

definition simulate_throughput :: "ModelInfo \<Rightarrow> real" where
  "simulate_throughput model =
     (let base_throughput = 100.0
      in case map_of task_throughputs (task_type model) of None \<Rightarrow> base_throughput | Some x \<Rightarrow> x)"

text \<open>\<^verbatim>\<open>str.lower\<close> on ASCII letters, and the substring test \<^verbatim>\<open>pattern in s\<close>.\<close>

definition lower_char :: "char \<Rightarrow> char" where
  "lower_char c =
     (let n = (of_char c :: nat) in if 65 \<le> n \<and> n \<le> 90 then char_of (n + 32) else c)"

definition lower :: "string \<Rightarrow> string" where
  "lower s = map lower_char s"

fun starts_with :: "string \<Rightarrow> string \<Rightarrow> bool" where
  "starts_with [] s = True"
| "starts_with (p # ps) [] = False"
| "starts_with (p # ps) (c # cs) = (p = c \<and> starts_with ps cs)"

fun py_in :: "string \<Rightarrow> string \<Rightarrow> bool" where
  "py_in p [] = (p = [])"
| "py_in p (c # cs) = (starts_with p (c # cs) \<or> py_in p cs)"

definition size_estimates :: "(string \<times> real) list" where
  "size_estimates =
     [(''bert-base'', 440.0),
      (''bert-large'', 1340.0),
      (''gpt2'', 548.0),
      (''distilbert'', 268.0),
      (''roberta-base'', 498.0),
      (''t5-small'', 242.0),
      (''t5-base'', 892.0)]"

text \<open>The loop over the items of \<^verbatim>\<open>size_estimates\<close>: the first pattern found returns.\<close>

fun estimate_loop :: "(string \<times> real) list \<Rightarrow> ModelInfo \<Rightarrow> real" where
  "estimate_loop [] model = 300.0"
| "estimate_loop ((pattern, sz) # rest) model =
     (if py_in pattern (lower (name model)) then sz else estimate_loop rest model)"

definition estimate_model_size :: "ModelInfo \<Rightarrow> real" where
  "estimate_model_size model = estimate_loop size_estimates model"

definition simulate_error_rate :: "env \<Rightarrow> real" where
  "simulate_error_rate e = error_rate_draw e"

definition statuses :: "string list" where
  "statuses = [''healthy'', ''warning'', ''degraded'']"

definition base_weights :: "real list" where
  "base_weights = [0.8, 0.15, 0.05]"

definition complex_tasks :: "string list" where
  "complex_tasks = [''text-generation'', ''summarization'']"

text \<open>The weights after the two adjustments, before they are normalised.\<close>

definition adjusted_weights :: "ModelInfo \<Rightarrow> real list" where
  "adjusted_weights model =
     (let weights = base_weights;
          weights =
            (if (case size_mb model of None \<Rightarrow> False | Some s \<Rightarrow> s \<noteq> 0 \<and> s > 1000)
             then ((weights[0 := weights ! 0 - 0.1])[1 := weights ! 1 + 0.08])[2 := weights ! 2 + 0.02]
             else weights);
          weights =
            (if task_type model \<in> set complex_tasks
             then ((weights[0 := weights ! 0 - 0.05])[1 := weights ! 1 + 0.04])[2 := weights ! 2 + 0.01]
             else weights)
      in weights)"

text \<open>
  The selection loop: \<open>cumulative\<close> grows by each weight in turn, the first index whose
  cumulative weight reaches the draw returns, and \<^verbatim>\<open>statuses[0]\<close> is the fallback.
\<close>

fun select_loop :: "real \<Rightarrow> real \<Rightarrow> nat \<Rightarrow> real list \<Rightarrow> string" where
  "select_loop random_value cumulative i [] = statuses ! 0"
| "select_loop random_value cumulative i (weight # ws) =
     (let cumulative = cumulative + weight
      in if random_value \<le> cumulative then statuses ! i
         else select_loop random_value cumulative (Suc i) ws)"

text \<open>The division by \<^verbatim>\<open>total_weight\<close> raises when the total is zero.\<close>

definition determine_status :: "env \<Rightarrow> ModelInfo \<Rightarrow> py_error + string" where
  "determine_status e model =
     (let weights = adjusted_weights model;
          total_weight = py_sum weights
      in if total_weight = 0 then Inl ZeroDivisionError
         else
           let weights = map (\<lambda>w. w / total_weight) weights;
               random_value = status_draw e
           in Inr (select_loop random_value 0 0 weights))"

text \<open>
  \<^verbatim>\<open>collect_metrics\<close> builds the sample from the helpers and appends it to the
  collector's history. Of the helpers only \<open>determine_status\<close> has a raise site that no
  handler catches, and none of them changes any state, so the order in which the source
  evaluates them does not show in the result.
\<close>

record collector =
  collection_history :: "PerformanceMetrics list"

definition collect_metrics ::
  "env \<Rightarrow> collector \<Rightarrow> ModelInfo \<Rightarrow> py_error + (PerformanceMetrics \<times> collector)" where
  "collect_metrics e c model =
     (case determine_status e model of
        Inl ex \<Rightarrow> Inl ex
      | Inr st \<Rightarrow>
          let metrics =
            \<lparr>model_name = name model,
             timestamp = now e,
             memory_usage_mb = get_memory_usage e,
             cpu_usage_percent = get_cpu_usage e,
             inference_time_ms = simulate_inference_time model,
             throughput_tokens_per_sec = simulate_throughput model,
             model_size_mb =
               (case size_mb model of
                  None \<Rightarrow> estimate_model_size model
                | Some s \<Rightarrow> if s \<noteq> 0 then s else estimate_model_size model),
             gpu_usage_percent = get_gpu_usage e,
             error_rate = simulate_error_rate e,
             status = st\<rparr>
          in Inr (metrics, c\<lparr>collection_history := collection_history c @ [metrics]\<rparr>))"

text \<open>
  The size estimate as the specification words it: of the patterns found in the name, the
  longest one gives the size.
\<close>

fun longest_match ::
  "(string \<times> real) list \<Rightarrow> string \<Rightarrow> (string \<times> real) option \<Rightarrow> (string \<times> real) option" where
  "longest_match [] nm best = best"
| "longest_match ((pattern, sz) # rest) nm best =
     longest_match rest nm
       (if py_in pattern nm \<and> (case best of None \<Rightarrow> True | Some (p, s) \<Rightarrow> length p < length pattern)
        then Some (pattern, sz) else best)"

definition spec_estimate_model_size :: "ModelInfo \<Rightarrow> real" where
  "spec_estimate_model_size model =
     (case longest_match size_estimates (lower (name model)) None of
        None \<Rightarrow> 300.0
      | Some (p, s) \<Rightarrow> s)"

text \<open>
  The status weights as the specification words them: the base weights, the two shifts,
  the division by the total; and the choice by cumulative weight in the order healthy,
  warning, degraded.
\<close>

definition spec_weights :: "ModelInfo \<Rightarrow> real \<times> real \<times> real" where
  "spec_weights model =
     (let big = (case size_mb model of None \<Rightarrow> False | Some s \<Rightarrow> s > 1000);
          cplx = (task_type model = ''text-generation'' \<or> task_type model = ''summarization'');
          h = 0.8 - (if big then 0.10 else 0) - (if cplx then 0.05 else 0);
          w = 0.15 + (if big then 0.08 else 0) + (if cplx then 0.04 else 0);
          d = 0.05 + (if big then 0.02 else 0) + (if cplx then 0.01 else 0);
          total = h + w + d
      in (h / total, w / total, d / total))"

definition spec_select :: "real \<Rightarrow> real \<times> real \<times> real \<Rightarrow> string" where
  "spec_select r hwd =
     (case hwd of (h, w, d) \<Rightarrow>
        if r \<le> h then ''healthy'' else if r \<le> h + w then ''warning'' else ''degraded'')"

subsection \<open>Sample data\<close>

definition gpt2 :: ModelInfo where
  "gpt2 =
     \<lparr>name = ''gpt2'', task_type = ''text-generation'', library = ''transformers'',
      size_mb = None, downloads = None, last_modified = None, tags = []\<rparr>"

definition distilbert :: ModelInfo where
  "distilbert =
     \<lparr>name = ''distilbert-base-uncased'', task_type = ''text-classification'',
      library = ''transformers'', size_mb = None, downloads = None, last_modified = None,
      tags = []\<rparr>"

definition quiet_env :: env where
  "quiet_env =
     \<lparr>memory_probe = Inl (Exception ''AccessDenied''), cpu_probe = Inl (Exception ''AccessDenied''),
      has_gpu = False, gpu_draw = 20, error_rate_draw = 1, status_draw = 0.7,
      now = ''2024-01-01T00:00:00''\<rparr>"

definition sample :: PerformanceMetrics where
  "sample =
     \<lparr>model_name = ''gpt2'', timestamp = ''2024-01-01T00:00:00'', memory_usage_mb = 5,
      cpu_usage_percent = 10, inference_time_ms = 100, throughput_tokens_per_sec = 80,
      model_size_mb = 548, gpu_usage_percent = None, error_rate = 1, status = ''healthy''\<rparr>"

section \<open>Properties\<close>

lemma check_loop_append:
  "check_loop th metrics cs acc = acc @ check_loop th metrics cs []"
proof (induction cs arbitrary: acc)
  case Nil
  show ?case by simp
next
  case (Cons c cs)
  obtain n v k where c: "c = (n, v, k)" by (cases c)
  show ?case
    unfolding c check_loop.simps
    by (subst Cons.IH, subst (2) Cons.IH) (simp split: option.split)
qed

lemma check_loop_one:
  "check_loop th metrics ((n, v, k) # cs) [] =
     (case map_of th k of None \<Rightarrow> []
      | Some t \<Rightarrow> if t \<noteq> 0 \<and> v > t then [exceeded_alert metrics n v t] else []) @
     check_loop th metrics cs []"
  by (subst check_loop.simps, subst check_loop_append) (simp split: option.split)

subsection \<open>The threshold evaluator\<close>

lemma check_thresholds_unfold:
  "check_thresholds th m =
     (case map_of th ''max_memory_mb'' of None \<Rightarrow> []
      | Some t \<Rightarrow> if t \<noteq> 0 \<and> memory_usage_mb m > t
                  then [exceeded_alert m ''memory_usage_mb'' (memory_usage_mb m) t] else []) @
     (case map_of th ''max_cpu_percent'' of None \<Rightarrow> []
      | Some t \<Rightarrow> if t \<noteq> 0 \<and> cpu_usage_percent m > t
                  then [exceeded_alert m ''cpu_usage_percent'' (cpu_usage_percent m) t] else []) @
     (case map_of th ''max_inference_time_ms'' of None \<Rightarrow> []
      | Some t \<Rightarrow> if t \<noteq> 0 \<and> inference_time_ms m > t
                  then [exceeded_alert m ''inference_time_ms'' (inference_time_ms m) t] else []) @
     (case map_of th ''max_error_rate'' of None \<Rightarrow> []
      | Some t \<Rightarrow> if t \<noteq> 0 \<and> error_rate m > t
                  then [exceeded_alert m ''error_rate'' (error_rate m) t] else []) @
     (case map_of th ''min_throughput_tokens_per_sec'' of None \<Rightarrow> []
      | Some t \<Rightarrow> if t \<noteq> 0 \<and> throughput_tokens_per_sec m < t
                  then [throughput_alert m t] else [])"
  unfolding check_thresholds_def checks_def Let_def check_loop_one
  by (simp split: option.split)

lemma spec_exceeded_eq:
  "spec_exceeded m n v t = (if v > t then [exceeded_alert m n v t] else [])"
  by (simp add: spec_exceeded_def exceeded_alert_def mult.commute)

lemma spec_throughput_low_eq:
  "spec_throughput_low m t = (if throughput_tokens_per_sec m < t then [throughput_alert m t] else [])"
  by (simp add: spec_throughput_low_def throughput_alert_def)

lemma exceeded_segment:
  "(case map_of th k of None \<Rightarrow> []
    | Some t \<Rightarrow> if t \<noteq> 0 \<and> v > t then [exceeded_alert m n v t] else []) =
   (case map_of th k of None \<Rightarrow> []
    | Some t \<Rightarrow> if t = 0 then [] else spec_exceeded m n v t)"
  by (cases "map_of th k") (simp_all add: spec_exceeded_eq)

lemma throughput_segment:
  "(case map_of th k of None \<Rightarrow> []
    | Some t \<Rightarrow> if t \<noteq> 0 \<and> throughput_tokens_per_sec m < t
                then [throughput_alert m t] else []) =
   (case map_of th k of None \<Rightarrow> []
    | Some t \<Rightarrow> if t = 0 then [] else spec_throughput_low m t)"
  by (cases "map_of th k") (simp_all add: spec_throughput_low_eq)

text \<open>
  Claim C1, as amended: for every sample and every threshold table, \<open>check_thresholds\<close>
  returns exactly the alerts of the specification's rule applied to each metric whose own
  limit is in the table and is not zero, and nothing for a metric whose limit is absent or
  zero: in the order memory, cpu, inference time, error rate, a \<open>threshold_exceeded\<close> alert
  if and only if the value is strictly above its limit, \<open>high\<close> if it is strictly above 1.5
  times the limit and \<open>medium\<close> otherwise; then a \<open>throughput_low\<close> alert of severity
  \<open>medium\<close> if and only if the throughput is strictly below its minimum. Each check is
  enabled or disabled by its own limit alone.
\<close>

theorem check_thresholds_per_metric:
  "check_thresholds th m =
     (case map_of th ''max_memory_mb'' of None \<Rightarrow> []
      | Some t \<Rightarrow> if t = 0 then []
                  else spec_exceeded m ''memory_usage_mb'' (memory_usage_mb m) t) @
     (case map_of th ''max_cpu_percent'' of None \<Rightarrow> []
      | Some t \<Rightarrow> if t = 0 then []
                  else spec_exceeded m ''cpu_usage_percent'' (cpu_usage_percent m) t) @
     (case map_of th ''max_inference_time_ms'' of None \<Rightarrow> []
      | Some t \<Rightarrow> if t = 0 then []
                  else spec_exceeded m ''inference_time_ms'' (inference_time_ms m) t) @
     (case map_of th ''max_error_rate'' of None \<Rightarrow> []
      | Some t \<Rightarrow> if t = 0 then []
                  else spec_exceeded m ''error_rate'' (error_rate m) t) @
     (case map_of th ''min_throughput_tokens_per_sec'' of None \<Rightarrow> []
      | Some t \<Rightarrow> if t = 0 then [] else spec_throughput_low m t)"
  unfolding check_thresholds_unfold exceeded_segment throughput_segment ..

text \<open>
  Claim C1 as stated, for every threshold table, fails: with \<open>max_error_rate = 0\<close> and an
  error rate of 1 the specification's rule alerts (1 is strictly above 0) and the code
  does not, because the guard \<^verbatim>\<open>threshold and ...\<close> skips a zero limit.
\<close>

theorem check_thresholds_zero_counterexample:
  "check_thresholds
     (table_of \<lparr>max_memory_mb = 2048, max_cpu_percent = 80, max_inference_time_ms = 1000,
                max_error_rate = 0, min_throughput_tokens_per_sec = 50\<rparr>) sample
   \<noteq> spec_alerts
     \<lparr>max_memory_mb = 2048, max_cpu_percent = 80, max_inference_time_ms = 1000,
      max_error_rate = 0, min_throughput_tokens_per_sec = 50\<rparr> sample"
  by (simp add: check_thresholds_unfold table_of_def sample_def spec_alerts_def
      spec_exceeded_def spec_throughput_low_def)

text \<open>
  Witness for C1, on the table of the counterexample: with \<open>max_error_rate = 0\<close> the error
  rate of 1 raises nothing, and the other checks still follow the rule: a memory usage of
  4000 (above 1.5 times 2048) gives one alert of severity \<open>high\<close>, a cpu usage exactly at
  its limit of 80 gives none.
\<close>

theorem check_thresholds_per_metric_witness:
  "check_thresholds
     (table_of \<lparr>max_memory_mb = 2048, max_cpu_percent = 80, max_inference_time_ms = 1000,
                max_error_rate = 0, min_throughput_tokens_per_sec = 50\<rparr>)
     (sample\<lparr>memory_usage_mb := 4000, cpu_usage_percent := 80\<rparr>) =
     [\<lparr>alert_type = ''threshold_exceeded'', alert_metric = ''memory_usage_mb'', alert_value = 4000,
       alert_threshold = 2048, alert_model = ''gpt2'', alert_timestamp = ''2024-01-01T00:00:00'',
       alert_severity = ''high''\<rparr>]"
  using check_thresholds_per_metric
    [of "table_of \<lparr>max_memory_mb = 2048, max_cpu_percent = 80, max_inference_time_ms = 1000,
                      max_error_rate = 0, min_throughput_tokens_per_sec = 50\<rparr>"
        "sample\<lparr>memory_usage_mb := 4000, cpu_usage_percent := 80\<rparr>"]
  by (simp add: table_of_def sample_def spec_exceeded_def spec_throughput_low_def)

text \<open>
  On a table that holds all five limits, none of them zero, this is the rule of the
  specification as it stands.
\<close>

lemma check_thresholds_full_table:
  assumes "map_of th ''max_memory_mb'' = Some (max_memory_mb T)"
      and "map_of th ''max_cpu_percent'' = Some (max_cpu_percent T)"
      and "map_of th ''max_inference_time_ms'' = Some (max_inference_time_ms T)"
      and "map_of th ''max_error_rate'' = Some (max_error_rate T)"
      and "map_of th ''min_throughput_tokens_per_sec'' = Some (min_throughput_tokens_per_sec T)"
      and "max_memory_mb T \<noteq> 0" and "max_cpu_percent T \<noteq> 0"
      and "max_inference_time_ms T \<noteq> 0" and "max_error_rate T \<noteq> 0"
      and "min_throughput_tokens_per_sec T \<noteq> 0"
  shows "check_thresholds th m = spec_alerts T m"
  unfolding check_thresholds_unfold spec_alerts_def spec_exceeded_eq spec_throughput_low_eq
  using assms by simp

lemma seg_exceeded:
  assumes "a \<in> set (case map_of th k of None \<Rightarrow> []
             | Some t \<Rightarrow> if t \<noteq> 0 \<and> v > t then [exceeded_alert m n v t] else [])"
  shows "alert_type a = ''threshold_exceeded'' \<and> alert_metric a = n \<and>
         (\<exists>t. map_of th k = Some t \<and> t \<noteq> 0 \<and> v > t)"
  using assms by (cases "map_of th k") (auto simp: exceeded_alert_def split: if_splits)

lemma seg_low:
  assumes "a \<in> set (case map_of th k of None \<Rightarrow> []
             | Some t \<Rightarrow> if t \<noteq> 0 \<and> v < t then [throughput_alert m t] else [])"
  shows "alert_type a = ''throughput_low'' \<and> (\<exists>t. map_of th k = Some t \<and> t \<noteq> 0 \<and> v < t)"
  using assms by (cases "map_of th k") (auto simp: throughput_alert_def split: if_splits)

lemma alert_origin:
  assumes "a \<in> set (check_thresholds th m)"
  shows "(alert_type a = ''threshold_exceeded'' \<and> alert_metric a = ''memory_usage_mb'' \<and>
            (\<exists>t. map_of th ''max_memory_mb'' = Some t \<and> t \<noteq> 0 \<and> memory_usage_mb m > t)) \<or>
         (alert_type a = ''threshold_exceeded'' \<and> alert_metric a = ''cpu_usage_percent'' \<and>
            (\<exists>t. map_of th ''max_cpu_percent'' = Some t \<and> t \<noteq> 0 \<and> cpu_usage_percent m > t)) \<or>
         (alert_type a = ''threshold_exceeded'' \<and> alert_metric a = ''inference_time_ms'' \<and>
            (\<exists>t. map_of th ''max_inference_time_ms'' = Some t \<and> t \<noteq> 0 \<and> inference_time_ms m > t)) \<or>
         (alert_type a = ''threshold_exceeded'' \<and> alert_metric a = ''error_rate'' \<and>
            (\<exists>t. map_of th ''max_error_rate'' = Some t \<and> t \<noteq> 0 \<and> error_rate m > t)) \<or>
         (alert_type a = ''throughput_low'' \<and>
            (\<exists>t. map_of th ''min_throughput_tokens_per_sec'' = Some t \<and> t \<noteq> 0 \<and>
                 throughput_tokens_per_sec m < t))"
proof -
  from assms consider
      (mem) "a \<in> set (case map_of th ''max_memory_mb'' of None \<Rightarrow> []
               | Some t \<Rightarrow> if t \<noteq> 0 \<and> memory_usage_mb m > t
                   then [exceeded_alert m ''memory_usage_mb'' (memory_usage_mb m) t] else [])"
    | (cpu) "a \<in> set (case map_of th ''max_cpu_percent'' of None \<Rightarrow> []
               | Some t \<Rightarrow> if t \<noteq> 0 \<and> cpu_usage_percent m > t
                   then [exceeded_alert m ''cpu_usage_percent'' (cpu_usage_percent m) t] else [])"
    | (inf) "a \<in> set (case map_of th ''max_inference_time_ms'' of None \<Rightarrow> []
               | Some t \<Rightarrow> if t \<noteq> 0 \<and> inference_time_ms m > t
                   then [exceeded_alert m ''inference_time_ms'' (inference_time_ms m) t] else [])"
    | (err) "a \<in> set (case map_of th ''max_error_rate'' of None \<Rightarrow> []
               | Some t \<Rightarrow> if t \<noteq> 0 \<and> error_rate m > t
                   then [exceeded_alert m ''error_rate'' (error_rate m) t] else [])"
    | (low) "a \<in> set (case map_of th ''min_throughput_tokens_per_sec'' of None \<Rightarrow> []
               | Some t \<Rightarrow> if t \<noteq> 0 \<and> throughput_tokens_per_sec m < t
                   then [throughput_alert m t] else [])"
    unfolding check_thresholds_unfold set_append Un_iff by blast
  then show ?thesis
  proof cases
    case mem
    from seg_exceeded [OF mem] show ?thesis by (rule disjI1)
  next
    case cpu
    from seg_exceeded [OF cpu] show ?thesis by (intro disjI2 disjI1)
  next
    case inf
    from seg_exceeded [OF inf] show ?thesis by (intro disjI2 disjI1)
  next
    case err
    from seg_exceeded [OF err] show ?thesis by (intro disjI2 disjI1)
  next
    case low
    from seg_low [OF low] show ?thesis by (intro disjI2)
  qed
qed

text \<open>
  Claim C9: when a max-threshold key is absent from the table or set to 0, no
  \<open>threshold_exceeded\<close> alert is emitted for its metric, whatever the observed value; when
  \<open>min_throughput_tokens_per_sec\<close> is absent or 0, no \<open>throughput_low\<close> alert is emitted.
\<close>

theorem falsy_threshold_disables_check:
  "(map_of th ''max_memory_mb'' = None \<or> map_of th ''max_memory_mb'' = Some 0 \<longrightarrow>
      (\<forall>a \<in> set (check_thresholds th m).
         \<not> (alert_type a = ''threshold_exceeded'' \<and> alert_metric a = ''memory_usage_mb''))) \<and>
   (map_of th ''max_cpu_percent'' = None \<or> map_of th ''max_cpu_percent'' = Some 0 \<longrightarrow>
      (\<forall>a \<in> set (check_thresholds th m).
         \<not> (alert_type a = ''threshold_exceeded'' \<and> alert_metric a = ''cpu_usage_percent''))) \<and>
   (map_of th ''max_inference_time_ms'' = None \<or> map_of th ''max_inference_time_ms'' = Some 0 \<longrightarrow>
      (\<forall>a \<in> set (check_thresholds th m).
         \<not> (alert_type a = ''threshold_exceeded'' \<and> alert_metric a = ''inference_time_ms''))) \<and>
   (map_of th ''max_error_rate'' = None \<or> map_of th ''max_error_rate'' = Some 0 \<longrightarrow>
      (\<forall>a \<in> set (check_thresholds th m).
         \<not> (alert_type a = ''threshold_exceeded'' \<and> alert_metric a = ''error_rate''))) \<and>
   (map_of th ''min_throughput_tokens_per_sec'' = None \<or>
    map_of th ''min_throughput_tokens_per_sec'' = Some 0 \<longrightarrow>
      (\<forall>a \<in> set (check_thresholds th m). alert_type a \<noteq> ''throughput_low''))"
proof (intro conjI impI ballI)
  fix a assume none: "map_of th ''max_memory_mb'' = None \<or> map_of th ''max_memory_mb'' = Some 0"
    and a: "a \<in> set (check_thresholds th m)"
  from alert_origin [OF a] none
  show "\<not> (alert_type a = ''threshold_exceeded'' \<and> alert_metric a = ''memory_usage_mb'')"
    by (elim disjE) auto
next
  fix a assume none: "map_of th ''max_cpu_percent'' = None \<or> map_of th ''max_cpu_percent'' = Some 0"
    and a: "a \<in> set (check_thresholds th m)"
  from alert_origin [OF a] none
  show "\<not> (alert_type a = ''threshold_exceeded'' \<and> alert_metric a = ''cpu_usage_percent'')"
    by (elim disjE) auto
next
  fix a assume none: "map_of th ''max_inference_time_ms'' = None \<or> map_of th ''max_inference_time_ms'' = Some 0"
    and a: "a \<in> set (check_thresholds th m)"
  from alert_origin [OF a] none
  show "\<not> (alert_type a = ''threshold_exceeded'' \<and> alert_metric a = ''inference_time_ms'')"
    by (elim disjE) auto
next
  fix a assume none: "map_of th ''max_error_rate'' = None \<or> map_of th ''max_error_rate'' = Some 0"
    and a: "a \<in> set (check_thresholds th m)"
  from alert_origin [OF a] none
  show "\<not> (alert_type a = ''threshold_exceeded'' \<and> alert_metric a = ''error_rate'')"
    by (elim disjE) auto
next
  fix a assume none: "map_of th ''min_throughput_tokens_per_sec'' = None \<or>
      map_of th ''min_throughput_tokens_per_sec'' = Some 0"
    and a: "a \<in> set (check_thresholds th m)"
  from alert_origin [OF a] none
  show "alert_type a \<noteq> ''throughput_low''"
    by (elim disjE) auto
qed

text \<open>
  Witness for C9: a table with \<open>max_memory_mb = 0\<close> and no throughput minimum, a sample
  with a memory usage of 1000000 and a throughput of 0: no alert at all.
\<close>

theorem falsy_threshold_disables_check_witness:
  "check_thresholds [(''max_memory_mb'', 0), (''max_cpu_percent'', 80)]
     (sample\<lparr>memory_usage_mb := 1000000, throughput_tokens_per_sec := 0\<rparr>) = []"
proof -
  let ?th = "[(''max_memory_mb'', 0), (''max_cpu_percent'', 80)] :: thresholds"
  let ?m = "sample\<lparr>memory_usage_mb := 1000000, throughput_tokens_per_sec := 0\<rparr>"
  have z: "map_of ?th ''max_memory_mb'' = Some 0" by simp
  have n: "map_of ?th ''min_throughput_tokens_per_sec'' = None" by simp
  from falsy_threshold_disables_check [of ?th ?m] z n
  have "\<forall>a \<in> set (check_thresholds ?th ?m).
          \<not> (alert_type a = ''threshold_exceeded'' \<and> alert_metric a = ''memory_usage_mb'')"
    and "\<forall>a \<in> set (check_thresholds ?th ?m). alert_type a \<noteq> ''throughput_low''"
    by blast+
  then show ?thesis
    by (simp add: check_thresholds_unfold sample_def)
qed

subsection \<open>The trend analysis\<close>

lemma nth_last_two:
  assumes "2 \<le> length (h :: 'a list)"
  shows "h ! (length h - 1) = last h" and "h ! (length h - 2) = last (butlast h)"
proof -
  from assms have ne: "h \<noteq> []" and ne': "butlast h \<noteq> []"
    by (auto simp: butlast_conv_take)
  show "h ! (length h - 1) = last h"
    using ne by (simp add: last_conv_nth)
  have "last (butlast h) = butlast h ! (length (butlast h) - 1)"
    using ne' by (simp add: last_conv_nth)
  also have "\<dots> = h ! (length h - 2)"
    using assms by (simp add: nth_butlast numeral_2_eq_2)
  finally show "h ! (length h - 2) = last (butlast h)" by simp
qed

lemma trends_dict:
  "AList.update ''performance'' c (AList.update ''cpu'' b (AList.update ''memory'' a [])) =
     [(''memory'', a), (''cpu'', b), (''performance'', c)]"
  by simp

text \<open>
  Claim C3: a history of fewer than two samples gives the single entry
  \<open>trend: insufficient_data\<close>; a history of at least two gives exactly the three entries
  memory, cpu and performance, computed from the last two samples only, on the delta newest
  minus previous with strict comparisons: beyond 10 for memory and beyond 5 for cpu
  (\<open>increasing\<close>, \<open>decreasing\<close>, else \<open>stable\<close>), beyond 50 for the inference time
  (\<open>degrading\<close>, \<open>improving\<close>, else \<open>stable\<close>).
\<close>

theorem calculate_trends_last_two:
  "(length (history_get (performance_history st) nm) < 2 \<longrightarrow>
      calculate_trends st nm = [(''trend'', ''insufficient_data'')]) \<and>
   (2 \<le> length (history_get (performance_history st) nm) \<longrightarrow>
      calculate_trends st nm =
        (let recent = last (history_get (performance_history st) nm);
             previous = last (butlast (history_get (performance_history st) nm))
         in [(''memory'',
               if memory_usage_mb recent - memory_usage_mb previous > 10 then ''increasing''
               else if memory_usage_mb recent - memory_usage_mb previous < - 10 then ''decreasing''
               else ''stable''),
             (''cpu'',
               if cpu_usage_percent recent - cpu_usage_percent previous > 5 then ''increasing''
               else if cpu_usage_percent recent - cpu_usage_percent previous < - 5 then ''decreasing''
               else ''stable''),
             (''performance'',
               if inference_time_ms recent - inference_time_ms previous > 50 then ''degrading''
               else if inference_time_ms recent - inference_time_ms previous < - 50 then ''improving''
               else ''stable'')]))"
proof (intro conjI impI)
  assume "length (history_get (performance_history st) nm) < 2"
  then show "calculate_trends st nm = [(''trend'', ''insufficient_data'')]"
    by (simp add: calculate_trends_def)
next
  assume two: "2 \<le> length (history_get (performance_history st) nm)"
  then have "\<not> length (history_get (performance_history st) nm) < 2" by simp
  then show "calculate_trends st nm =
        (let recent = last (history_get (performance_history st) nm);
             previous = last (butlast (history_get (performance_history st) nm))
         in [(''memory'',
               if memory_usage_mb recent - memory_usage_mb previous > 10 then ''increasing''
               else if memory_usage_mb recent - memory_usage_mb previous < - 10 then ''decreasing''
               else ''stable''),
             (''cpu'',
               if cpu_usage_percent recent - cpu_usage_percent previous > 5 then ''increasing''
               else if cpu_usage_percent recent - cpu_usage_percent previous < - 5 then ''decreasing''
               else ''stable''),
             (''performance'',
               if inference_time_ms recent - inference_time_ms previous > 50 then ''degrading''
               else if inference_time_ms recent - inference_time_ms previous < - 50 then ''improving''
               else ''stable'')])"
    unfolding calculate_trends_def Let_def trends_dict nth_last_two [OF two]
    by (simp only: if_False)
qed

text \<open>
  Witness for C3: memory 100 then 115 is \<open>increasing\<close>; an untracked model has
  insufficient data.
\<close>

theorem calculate_trends_last_two_witness:
  "calculate_trends
     \<lparr>performance_history =
        [(''gpt2'', [sample\<lparr>memory_usage_mb := 100\<rparr>, sample\<lparr>memory_usage_mb := 115\<rparr>])],
      alerts = [], thresholds = default_thresholds\<rparr> ''gpt2'' =
     [(''memory'', ''increasing''), (''cpu'', ''stable''), (''performance'', ''stable'')] \<and>
   calculate_trends
     \<lparr>performance_history = [(''gpt2'', [sample])], alerts = [],
      thresholds = default_thresholds\<rparr> ''bert'' = [(''trend'', ''insufficient_data'')]"
  using calculate_trends_last_two
          [of "\<lparr>performance_history =
                  [(''gpt2'', [sample\<lparr>memory_usage_mb := 100\<rparr>, sample\<lparr>memory_usage_mb := 115\<rparr>])],
                alerts = [], thresholds = default_thresholds\<rparr>" "''gpt2''"]
        calculate_trends_last_two
          [of "\<lparr>performance_history = [(''gpt2'', [sample])], alerts = [],
                thresholds = default_thresholds\<rparr>" "''bert''"]
  by (simp add: history_get_def sample_def)

subsection \<open>Tracking\<close>

lemma track_history:
  "history_get (performance_history (snd (track_performance st nm m))) k =
     (if k = nm then history_get (performance_history st) nm @ [m]
      else history_get (performance_history st) k)"
  by (cases "map_of (performance_history st) nm")
     (simp_all add: track_performance_def Let_def history_get_def
        AList.map_of_map_entry AList.update_conv')

lemma track_alerts:
  "alerts (snd (track_performance st nm m)) = alerts st @ check_thresholds (thresholds st) m"
  by (simp add: track_performance_def Let_def)

lemma track_thresholds:
  "thresholds (snd (track_performance st nm m)) = thresholds st"
  by (simp add: track_performance_def Let_def)

lemma calculate_trends_cong:
  assumes "history_get (performance_history st) nm = history_get (performance_history st') nm"
  shows "calculate_trends st nm = calculate_trends st' nm"
  unfolding calculate_trends_def assms ..

lemma track_result:
  "fst (track_performance st nm m) =
     \<lparr>tr_model_name = nm, current_metrics = to_dict m,
      tr_alerts = check_thresholds (thresholds st) m,
      trends = calculate_trends (snd (track_performance st nm m)) nm,
      tr_status = status m\<rparr>"
  by (simp add: track_performance_def Let_def)

lemma track_all_thresholds:
  "thresholds (track_all st nm ms) = thresholds st"
  by (induction ms arbitrary: st) (simp_all add: track_thresholds)

lemma track_all_history:
  "history_get (performance_history (track_all st nm ms)) nm =
     history_get (performance_history st) nm @ ms"
  by (induction ms arbitrary: st) (simp_all add: track_history)

lemma track_all_alerts:
  "alerts (track_all st nm ms) = alerts st @ concat (map (check_thresholds (thresholds st)) ms)"
  by (induction ms arbitrary: st) (simp_all add: track_alerts track_thresholds)

text \<open>
  Claim C2: after a sequence of N calls for one model its history is what it was, followed
  by the N samples in call order (exactly the N samples on a new monitor); each call appends
  the evaluator's alerts for its sample to the end of the alert log, nothing removed or
  merged; the result of a call holds the serialized sample, the alerts of this call only,
  the trends computed on the history that ends with the new sample, and the sample's
  status.
\<close>

theorem track_performance_appends:
  "history_get (performance_history (track_all st nm ms)) nm =
     history_get (performance_history st) nm @ ms \<and>
   history_get (performance_history (track_all init_monitor nm ms)) nm = ms \<and>
   alerts (track_all st nm ms) =
     alerts st @ concat (map (check_thresholds (thresholds st)) ms) \<and>
   alerts (snd (track_performance st nm m)) =
     alerts st @ check_thresholds (thresholds st) m \<and>
   fst (track_performance st nm m) =
     \<lparr>tr_model_name = nm, current_metrics = to_dict m,
      tr_alerts = check_thresholds (thresholds st) m,
      trends = calculate_trends
        (st\<lparr>performance_history := [(nm, history_get (performance_history st) nm @ [m])]\<rparr>) nm,
      tr_status = status m\<rparr>"
proof -
  have "history_get (performance_history (track_all init_monitor nm ms)) nm = ms"
    by (simp add: track_all_history) (simp add: init_monitor_def history_get_def)
  moreover have "calculate_trends (snd (track_performance st nm m)) nm =
      calculate_trends
        (st\<lparr>performance_history := [(nm, history_get (performance_history st) nm @ [m])]\<rparr>) nm"
    by (rule calculate_trends_cong) (simp add: track_history, simp add: history_get_def)
  ultimately show ?thesis
    by (simp add: track_all_history track_all_alerts track_alerts track_result)
qed

text \<open>
  An instance of C2: the same sample, above the memory limit, tracked twice on a new
  monitor gives a history of two samples and two alerts in the log.
\<close>

theorem track_performance_appends_witness:
  "history_get (performance_history
       (track_all init_monitor ''gpt2''
          [sample\<lparr>memory_usage_mb := 4000\<rparr>, sample\<lparr>memory_usage_mb := 4000\<rparr>])) ''gpt2'' =
     [sample\<lparr>memory_usage_mb := 4000\<rparr>, sample\<lparr>memory_usage_mb := 4000\<rparr>] \<and>
   length (alerts (track_all init_monitor ''gpt2''
          [sample\<lparr>memory_usage_mb := 4000\<rparr>, sample\<lparr>memory_usage_mb := 4000\<rparr>])) = 2"
proof -
  let ?ms = "[sample\<lparr>memory_usage_mb := 4000\<rparr>, sample\<lparr>memory_usage_mb := 4000\<rparr>]"
  note t = track_performance_appends [of init_monitor "''gpt2''" ?ms sample]
  from t have h: "history_get (performance_history (track_all init_monitor ''gpt2'' ?ms)) ''gpt2'' = ?ms"
    by blast
  from t have a: "alerts (track_all init_monitor ''gpt2'' ?ms) =
      alerts init_monitor @ concat (map (check_thresholds (thresholds init_monitor)) ?ms)"
    by blast
  have "length (alerts (track_all init_monitor ''gpt2'' ?ms)) = 2"
    unfolding a
    by (simp add: init_monitor_def default_thresholds_def check_thresholds_unfold sample_def)
  with h show ?thesis by blast
qed

subsection \<open>The model summary\<close>

lemma py_sum_sum_list: "py_sum xs = sum_list xs"
proof -
  have "foldl (+) a xs = a + sum_list xs" for a :: real
    by (induction xs arbitrary: a) simp_all
  then show ?thesis by (simp add: py_sum_def)
qed

lemma summary_no_data:
  assumes "history_get (performance_history st) nm = []"
  shows "get_model_summary st nm = Inr (NoData ''No performance data available'')"
  using assms by (simp add: get_model_summary_def)

lemma summary_some_data:
  assumes "history_get (performance_history st) nm = h" and "h \<noteq> []"
  shows "get_model_summary st nm =
     Inr (Summary
       \<lparr>s_model_name = nm,
        latest_metrics = to_dict (last h),
        s_averages =
          \<lparr>avg_memory_usage_mb = sum_list (map memory_usage_mb h) / real (length h),
           avg_cpu_usage_percent = sum_list (map cpu_usage_percent h) / real (length h),
           avg_inference_time_ms = sum_list (map inference_time_ms h) / real (length h),
           avg_throughput_tokens_per_sec =
             sum_list (map throughput_tokens_per_sec h) / real (length h)\<rparr>,
        metrics_count = length h,
        alerts_count = length (filter (\<lambda>a. alert_model a = nm) (alerts st)),
        s_status = status (last h)\<rparr>)"
  using assms
  by (simp add: get_model_summary_def Let_def py_truediv_def py_sum_sum_list last_conv_nth)

text \<open>
  Claim C4: for a model without history the summary is the "no data" error and nothing
  else; for a model with a history it holds the last sample appended, the arithmetic means
  over the whole history of memory, cpu, inference time and throughput, the number of
  samples and the number of alerts of the log whose model is the name asked for. After one
  call of \<open>track_performance\<close> for a model not tracked before, the latest sample is that
  sample and every average is that sample's value.
\<close>

theorem get_model_summary_spec:
  "(history_get (performance_history st) nm = [] \<longrightarrow>
      get_model_summary st nm = Inr (NoData ''No performance data available'')) \<and>
   (history_get (performance_history st) nm \<noteq> [] \<longrightarrow>
      get_model_summary st nm =
        (let h = history_get (performance_history st) nm in
         Inr (Summary
           \<lparr>s_model_name = nm,
            latest_metrics = to_dict (last h),
            s_averages =
              \<lparr>avg_memory_usage_mb = sum_list (map memory_usage_mb h) / real (length h),
               avg_cpu_usage_percent = sum_list (map cpu_usage_percent h) / real (length h),
               avg_inference_time_ms = sum_list (map inference_time_ms h) / real (length h),
               avg_throughput_tokens_per_sec =
                 sum_list (map throughput_tokens_per_sec h) / real (length h)\<rparr>,
            metrics_count = length h,
            alerts_count = length (filter (\<lambda>a. alert_model a = nm) (alerts st)),
            s_status = status (last h)\<rparr>))) \<and>
   (history_get (performance_history st) nm = [] \<longrightarrow>
      get_model_summary (snd (track_performance st nm m)) nm =
        Inr (Summary
          \<lparr>s_model_name = nm,
           latest_metrics = to_dict m,
           s_averages =
             \<lparr>avg_memory_usage_mb = memory_usage_mb m,
              avg_cpu_usage_percent = cpu_usage_percent m,
              avg_inference_time_ms = inference_time_ms m,
              avg_throughput_tokens_per_sec = throughput_tokens_per_sec m\<rparr>,
           metrics_count = 1,
           alerts_count =
             length (filter (\<lambda>a. alert_model a = nm)
                       (alerts st @ check_thresholds (thresholds st) m)),
           s_status = status m\<rparr>))"
proof (intro conjI impI)
  assume "history_get (performance_history st) nm = []"
  then show "get_model_summary st nm = Inr (NoData ''No performance data available'')"
    by (rule summary_no_data)
next
  assume "history_get (performance_history st) nm \<noteq> []"
  then show "get_model_summary st nm =
        (let h = history_get (performance_history st) nm in
         Inr (Summary
           \<lparr>s_model_name = nm,
            latest_metrics = to_dict (last h),
            s_averages =
              \<lparr>avg_memory_usage_mb = sum_list (map memory_usage_mb h) / real (length h),
               avg_cpu_usage_percent = sum_list (map cpu_usage_percent h) / real (length h),
               avg_inference_time_ms = sum_list (map inference_time_ms h) / real (length h),
               avg_throughput_tokens_per_sec =
                 sum_list (map throughput_tokens_per_sec h) / real (length h)\<rparr>,
            metrics_count = length h,
            alerts_count = length (filter (\<lambda>a. alert_model a = nm) (alerts st)),
            s_status = status (last h)\<rparr>))"
    unfolding Let_def by (rule summary_some_data [OF refl])
next
  assume e: "history_get (performance_history st) nm = []"
  have h: "history_get (performance_history (snd (track_performance st nm m))) nm = [m]"
    by (simp add: track_history e)
  show "get_model_summary (snd (track_performance st nm m)) nm =
        Inr (Summary
          \<lparr>s_model_name = nm,
           latest_metrics = to_dict m,
           s_averages =
             \<lparr>avg_memory_usage_mb = memory_usage_mb m,
              avg_cpu_usage_percent = cpu_usage_percent m,
              avg_inference_time_ms = inference_time_ms m,
              avg_throughput_tokens_per_sec = throughput_tokens_per_sec m\<rparr>,
           metrics_count = 1,
           alerts_count =
             length (filter (\<lambda>a. alert_model a = nm)
                       (alerts st @ check_thresholds (thresholds st) m)),
           s_status = status m\<rparr>)"
    by (subst summary_some_data [OF h]) (simp_all add: track_alerts)
qed

text \<open>
  Witness for C4: on a new monitor the summary of \<open>gpt2\<close> is the error; after one tracked
  sample it is the summary of that sample.
\<close>

theorem get_model_summary_spec_witness:
  "get_model_summary init_monitor ''gpt2'' = Inr (NoData ''No performance data available'') \<and>
   get_model_summary (snd (track_performance init_monitor ''gpt2'' sample)) ''gpt2'' =
     Inr (Summary
       \<lparr>s_model_name = ''gpt2'', latest_metrics = to_dict sample,
        s_averages =
          \<lparr>avg_memory_usage_mb = 5, avg_cpu_usage_percent = 10,
           avg_inference_time_ms = 100, avg_throughput_tokens_per_sec = 80\<rparr>,
        metrics_count = 1, alerts_count = 0, s_status = ''healthy''\<rparr>)"
proof -
  have e: "history_get (performance_history init_monitor) ''gpt2'' = []"
    by (simp add: init_monitor_def history_get_def)
  have c: "check_thresholds (thresholds init_monitor) sample = []"
    by (simp add: init_monitor_def default_thresholds_def check_thresholds_unfold sample_def)
  have a: "alerts init_monitor = []"
    by (simp add: init_monitor_def)
  from get_model_summary_spec [of init_monitor "''gpt2''" sample] e
  have "get_model_summary init_monitor ''gpt2'' = Inr (NoData ''No performance data available'')"
    and "get_model_summary (snd (track_performance init_monitor ''gpt2'' sample)) ''gpt2'' =
        Inr (Summary
          \<lparr>s_model_name = ''gpt2'',
           latest_metrics = to_dict sample,
           s_averages =
             \<lparr>avg_memory_usage_mb = memory_usage_mb sample,
              avg_cpu_usage_percent = cpu_usage_percent sample,
              avg_inference_time_ms = inference_time_ms sample,
              avg_throughput_tokens_per_sec = throughput_tokens_per_sec sample\<rparr>,
           metrics_count = 1,
           alerts_count =
             length (filter (\<lambda>a. alert_model a = ''gpt2'')
                       (alerts init_monitor @ check_thresholds (thresholds init_monitor) sample)),
           s_status = status sample\<rparr>)"
    by blast+
  then show ?thesis
    unfolding c a by (simp add: sample_def)
qed

subsection \<open>Reachable states and the overview\<close>

lemma map_entry_nonempty:
  assumes "\<forall>h \<in> snd ` set al. h \<noteq> []"
  shows "\<forall>h \<in> snd ` set (AList.map_entry k (\<lambda>h. h @ [m]) al). h \<noteq> []"
  using assms by (induction al) auto

lemma map_entry_update_nonempty:
  assumes "\<forall>h \<in> snd ` set al. h \<noteq> []"
  shows "\<forall>h \<in> snd ` set (AList.map_entry k (\<lambda>h. h @ [m]) (AList.update k [] al)). h \<noteq> []"
  using assms by (induction al) auto

lemma track_nonempty:
  assumes "\<forall>h \<in> snd ` set (performance_history st). h \<noteq> []"
  shows "\<forall>h \<in> snd ` set (performance_history (snd (track_performance st nm m))). h \<noteq> []"
proof (cases "map_of (performance_history st) nm")
  case None
  then have "performance_history (snd (track_performance st nm m)) =
      AList.map_entry nm (\<lambda>h. h @ [m]) (AList.update nm [] (performance_history st))"
    by (simp add: track_performance_def Let_def)
  with map_entry_update_nonempty [OF assms] show ?thesis by simp
next
  case (Some h)
  then have "performance_history (snd (track_performance st nm m)) =
      AList.map_entry nm (\<lambda>h. h @ [m]) (performance_history st)"
    by (simp add: track_performance_def Let_def)
  with map_entry_nonempty [OF assms] show ?thesis by simp
qed

lemma reachable_nonempty:
  assumes "reachable st"
  shows "\<forall>h \<in> snd ` set (performance_history st). h \<noteq> []"
  using assms
proof (induction rule: reachable.induct)
  case init
  show ?case by (simp add: init_monitor_def)
next
  case (track st nm metrics)
  from track.IH show ?case by (rule track_nonempty)
next
  case (configure st th)
  then show ?case by simp
qed

lemma reachable_distinct:
  assumes "reachable st"
  shows "distinct (map fst (performance_history st))"
  using assms
proof (induction rule: reachable.induct)
  case init
  show ?case by (simp add: init_monitor_def)
next
  case (track st nm metrics)
  from track.IH show ?case
    by (cases "map_of (performance_history st) nm")
       (simp_all add: track_performance_def Let_def AList.distinct_map_entry AList.distinct_update)
next
  case (configure st th)
  then show ?case by simp
qed

lemma update_count_sum:
  "sum_list (map snd (AList.update s (Suc (case map_of sc s of None \<Rightarrow> 0 | Some c \<Rightarrow> c)) sc)) =
     Suc (sum_list (map snd sc))"
  by (induction sc) auto

lemma count_statuses_sum:
  "sum_list (map snd (count_statuses hs sc)) =
     sum_list (map snd sc) + length (filter (\<lambda>h. h \<noteq> []) hs)"
proof (induction hs arbitrary: sc)
  case Nil
  show ?case by simp
next
  case (Cons h hs)
  show ?case
    by (simp add: Cons.IH Let_def update_count_sum)
qed

lemma count_statuses_lookup:
  "(case map_of (count_statuses hs sc) s of None \<Rightarrow> 0 | Some c \<Rightarrow> c) =
     (case map_of sc s of None \<Rightarrow> 0 | Some c \<Rightarrow> c) +
     length (filter (\<lambda>h. h \<noteq> [] \<and> status (last h) = s) hs)"
proof (induction hs arbitrary: sc)
  case Nil
  show ?case by simp
next
  case (Cons h hs)
  show ?case
    by (simp add: Cons.IH Let_def AList.update_conv' last_conv_nth)
qed

lemma summary_never_raises: "\<exists>r. get_model_summary st nm = Inr r"
proof (cases "history_get (performance_history st) nm = []")
  case True
  then show ?thesis by (simp add: summary_no_data)
next
  case False
  then show ?thesis by (simp add: summary_some_data [OF refl])
qed

lemma filter_all: "\<forall>x \<in> set xs. P x \<Longrightarrow> filter P xs = xs"
  by (induction xs) auto

text \<open>
  Claim C10: in every reachable state of the monitor every stored history is non-empty
  (and the keys of the history dictionary are distinct, as a dictionary's are); so the summary never divides by zero (it returns a value for every name), and the status
  histogram of the overview counts, for each model, the status of its last sample once: a
  status's count is the number of models whose last sample has it, and the counts sum to
  \<open>total_models_monitored\<close>.
\<close>

theorem reachable_histories_nonempty:
  assumes "reachable st"
  shows "(\<forall>h \<in> snd ` set (performance_history st). h \<noteq> []) \<and>
         distinct (map fst (performance_history st)) \<and>
         (\<forall>nm. \<exists>r. get_model_summary st nm = Inr r) \<and>
         (\<forall>s. (case map_of (status_distribution (get_system_overview st)) s of
                  None \<Rightarrow> 0 | Some c \<Rightarrow> c) =
               length (filter (\<lambda>h. status (last h) = s) (map snd (performance_history st)))) \<and>
         sum_list (map snd (status_distribution (get_system_overview st))) =
           total_models_monitored (get_system_overview st)"
proof -
  note ne = reachable_nonempty [OF assms]
  then have all: "\<forall>h \<in> set (map snd (performance_history st)). h \<noteq> []" by simp
  have f: "filter (\<lambda>h. h \<noteq> []) (map snd (performance_history st)) = map snd (performance_history st)"
    using all by (rule filter_all)
  have g: "filter (\<lambda>h. h \<noteq> [] \<and> status (last h) = s) (map snd (performance_history st)) =
           filter (\<lambda>h. status (last h) = s) (map snd (performance_history st))" for s
    using all by (intro filter_cong) auto
  have "sum_list (map snd (status_distribution (get_system_overview st))) =
           total_models_monitored (get_system_overview st)"
    by (simp add: get_system_overview_def count_statuses_sum f)
  moreover have "(case map_of (status_distribution (get_system_overview st)) s of
                  None \<Rightarrow> 0 | Some c \<Rightarrow> c) =
               length (filter (\<lambda>h. status (last h) = s) (map snd (performance_history st)))" for s
    by (simp add: get_system_overview_def count_statuses_lookup g)
  ultimately show ?thesis
    using ne reachable_distinct [OF assms] summary_never_raises by blast
qed

text \<open>
  Witness for C10: after one tracked sample on a new monitor there is one model, and the
  histogram holds its status once.
\<close>

theorem reachable_histories_nonempty_witness:
  "sum_list (map snd (status_distribution
      (get_system_overview (snd (track_performance init_monitor ''gpt2'' sample))))) = 1 \<and>
   status_distribution
      (get_system_overview (snd (track_performance init_monitor ''gpt2'' sample))) =
     [(''healthy'', 1)]"
proof -
  have r: "reachable (snd (track_performance init_monitor ''gpt2'' sample))"
    by (rule reachable.track [OF reachable.init])
  have h: "performance_history (snd (track_performance init_monitor ''gpt2'' sample)) =
      [(''gpt2'', [sample])]"
    by (simp add: track_performance_def Let_def init_monitor_def)
  from reachable_histories_nonempty [OF r]
  have "sum_list (map snd (status_distribution
      (get_system_overview (snd (track_performance init_monitor ''gpt2'' sample))))) =
      total_models_monitored (get_system_overview (snd (track_performance init_monitor ''gpt2'' sample)))"
    by blast
  also have "\<dots> = 1"
    by (simp add: get_system_overview_def h)
  finally have s: "sum_list (map snd (status_distribution
      (get_system_overview (snd (track_performance init_monitor ''gpt2'' sample))))) = 1" .
  have "status_distribution
      (get_system_overview (snd (track_performance init_monitor ''gpt2'' sample))) =
     [(''healthy'', 1)]"
    unfolding get_system_overview_def h by (simp add: sample_def)
  with s show ?thesis by blast
qed

subsection \<open>The metrics collector: status, failure of the host calls\<close>

lemma adjusted_weights_eq:
  "adjusted_weights model =
     (let big = (case size_mb model of None \<Rightarrow> False | Some s \<Rightarrow> s > 1000);
          cplx = (task_type model = ''text-generation'' \<or> task_type model = ''summarization'')
      in [0.8 - (if big then 0.10 else 0) - (if cplx then 0.05 else 0),
          0.15 + (if big then 0.08 else 0) + (if cplx then 0.04 else 0),
          0.05 + (if big then 0.02 else 0) + (if cplx then 0.01 else 0)])"
proof -
  have big: "(case size_mb model of None \<Rightarrow> False | Some s \<Rightarrow> s \<noteq> 0 \<and> s > 1000) =
             (case size_mb model of None \<Rightarrow> False | Some s \<Rightarrow> s > 1000)"
    by (cases "size_mb model") auto
  show ?thesis
    unfolding adjusted_weights_def big base_weights_def complex_tasks_def Let_def
    by (simp add: numeral_2_eq_2)
qed

lemma adjusted_weights_total: "py_sum (adjusted_weights model) = 1"
  unfolding adjusted_weights_eq Let_def py_sum_sum_list by simp

lemma spec_weights_eq:
  "spec_weights model =
     (adjusted_weights model ! 0, adjusted_weights model ! 1, adjusted_weights model ! 2)"
  unfolding adjusted_weights_eq spec_weights_def Let_def
  by (simp add: numeral_2_eq_2)

lemma spec_weights_total: "(case spec_weights model of (h, w, d) \<Rightarrow> h + w + d) = 1"
  unfolding spec_weights_def Let_def by simp

lemma determine_status_eq:
  "determine_status e model = Inr (select_loop (status_draw e) 0 0 (adjusted_weights model))"
  by (simp add: determine_status_def Let_def adjusted_weights_total)

lemma select_loop_three:
  assumes "r \<le> h + w + d"
  shows "select_loop r 0 0 [h, w, d] =
     (if r \<le> h then ''healthy'' else if r \<le> h + w then ''warning'' else ''degraded'')"
  using assms by (simp add: Let_def statuses_def numeral_2_eq_2)

lemma adjusted_weights_list:
  "adjusted_weights model =
     (case spec_weights model of (h, w, d) \<Rightarrow> [h, w, d])"
  unfolding adjusted_weights_eq spec_weights_def Let_def by simp

text \<open>
  Claim C7: for a draw in \<open>[0, 1)\<close> the status is chosen among healthy, warning and
  degraded by cumulative weight in that order, over the base weights 0.8, 0.15, 0.05 shifted
  by (-0.10, +0.08, +0.02) when the declared size is above 1000 MB and by
  (-0.05, +0.04, +0.01) when the task is text-generation or summarization, and divided by
  their total, so that they sum to 1.
\<close>

theorem determine_status_cumulative:
  assumes "0 \<le> status_draw e" and "status_draw e < 1"
  shows "determine_status e model = Inr (spec_select (status_draw e) (spec_weights model)) \<and>
         spec_select (status_draw e) (spec_weights model) \<in> {''healthy'', ''warning'', ''degraded''} \<and>
         (case spec_weights model of (h, w, d) \<Rightarrow> h + w + d) = 1"
proof -
  obtain h w d where hwd: "spec_weights model = (h, w, d)"
    by (cases "spec_weights model")
  from spec_weights_total [of model] hwd have total: "h + w + d = 1" by simp
  with assms have le: "status_draw e \<le> h + w + d" by simp
  have "determine_status e model = Inr (select_loop (status_draw e) 0 0 [h, w, d])"
    by (simp add: determine_status_eq adjusted_weights_list hwd)
  also have "\<dots> = Inr (spec_select (status_draw e) (spec_weights model))"
    unfolding select_loop_three [OF le] hwd spec_select_def by simp
  finally have "determine_status e model = Inr (spec_select (status_draw e) (spec_weights model))" .
  moreover have "spec_select (status_draw e) (spec_weights model) \<in>
      {''healthy'', ''warning'', ''degraded''}"
    unfolding hwd spec_select_def by simp
  ultimately show ?thesis
    using spec_weights_total by blast
qed

text \<open>
  Witness for C7: a text-generation model with a declared size of 1500 MB has the weights
  0.65, 0.27, 0.08; the draw 0.7 lies above 0.65 and below 0.92, so the status is warning.
\<close>

theorem determine_status_cumulative_witness:
  "determine_status quiet_env (gpt2\<lparr>size_mb := Some 1500\<rparr>) = Inr ''warning''"
proof -
  have "0 \<le> status_draw quiet_env" and "status_draw quiet_env < 1"
    by (simp_all add: quiet_env_def)
  from determine_status_cumulative [OF this, of "gpt2\<lparr>size_mb := Some 1500\<rparr>"]
  have "determine_status quiet_env (gpt2\<lparr>size_mb := Some 1500\<rparr>) =
      Inr (spec_select (status_draw quiet_env) (spec_weights (gpt2\<lparr>size_mb := Some 1500\<rparr>)))"
    by blast
  also have "\<dots> = Inr ''warning''"
    by (simp add: spec_select_def spec_weights_def quiet_env_def gpt2_def Let_def)
  finally show ?thesis .
qed

lemma collect_metrics_eq:
  "collect_metrics e c model =
     Inr (\<lparr>model_name = name model,
           timestamp = now e,
           memory_usage_mb = get_memory_usage e,
           cpu_usage_percent = get_cpu_usage e,
           inference_time_ms = simulate_inference_time model,
           throughput_tokens_per_sec = simulate_throughput model,
           model_size_mb =
             (case size_mb model of
                None \<Rightarrow> estimate_model_size model
              | Some s \<Rightarrow> if s \<noteq> 0 then s else estimate_model_size model),
           gpu_usage_percent = get_gpu_usage e,
           error_rate = simulate_error_rate e,
           status = select_loop (status_draw e) 0 0 (adjusted_weights model)\<rparr>,
          c\<lparr>collection_history := collection_history c @
            [\<lparr>model_name = name model,
              timestamp = now e,
              memory_usage_mb = get_memory_usage e,
              cpu_usage_percent = get_cpu_usage e,
              inference_time_ms = simulate_inference_time model,
              throughput_tokens_per_sec = simulate_throughput model,
              model_size_mb =
                (case size_mb model of
                   None \<Rightarrow> estimate_model_size model
                 | Some s \<Rightarrow> if s \<noteq> 0 then s else estimate_model_size model),
              gpu_usage_percent = get_gpu_usage e,
              error_rate = simulate_error_rate e,
              status = select_loop (status_draw e) 0 0 (adjusted_weights model)\<rparr>]\<rparr>)"
  by (simp add: collect_metrics_def determine_status_eq Let_def)

text \<open>
  Claim C8: \<open>collect_metrics\<close> returns a sample for every descriptor and every outcome of
  the host calls, never an error; when the memory introspection raises the sample's
  memory usage is 512.0, and when the cpu introspection raises its cpu usage is 25.0.
\<close>

theorem collect_metrics_total:
  "\<exists>m c'. collect_metrics e c model = Inr (m, c') \<and>
      (\<forall>ex. memory_probe e = Inl ex \<longrightarrow> memory_usage_mb m = 512.0) \<and>
      (\<forall>ex. cpu_probe e = Inl ex \<longrightarrow> cpu_usage_percent m = 25.0)"
  unfolding collect_metrics_eq
  by (auto simp: get_memory_usage_def get_cpu_usage_def)

text \<open>
  Witness for C8: with both host calls raising, the sample collected for \<open>gpt2\<close> has the
  two defaults.
\<close>

theorem collect_metrics_total_witness:
  "(case collect_metrics quiet_env \<lparr>collection_history = []\<rparr> gpt2 of
      Inl ex \<Rightarrow> None
    | Inr (m, c') \<Rightarrow> Some (memory_usage_mb m, cpu_usage_percent m)) = Some (512, 25)"
proof -
  have mp: "memory_probe quiet_env = Inl (Exception ''AccessDenied'')"
    and cp: "cpu_probe quiet_env = Inl (Exception ''AccessDenied'')"
    by (simp_all add: quiet_env_def)
  from collect_metrics_total [of quiet_env "\<lparr>collection_history = []\<rparr>" gpt2]
  obtain m c' where "collect_metrics quiet_env \<lparr>collection_history = []\<rparr> gpt2 = Inr (m, c')"
    and "\<forall>ex. memory_probe quiet_env = Inl ex \<longrightarrow> memory_usage_mb m = 512.0"
    and "\<forall>ex. cpu_probe quiet_env = Inl ex \<longrightarrow> cpu_usage_percent m = 25.0"
    by blast
  with mp cp show ?thesis by auto
qed

subsection \<open>The metrics collector: inference time and model size\<close>

lemma task_multiplier_eq:
  "(case map_of task_multipliers t of None \<Rightarrow> 1.0 | Some x \<Rightarrow> x) =
     (if t = ''text-generation'' then 2.0
      else if t = ''text-classification'' then 1.0
      else if t = ''question-answering'' then 1.5
      else if t = ''summarization'' then 1.8
      else if t = ''translation'' then 1.6
      else (1.0 :: real))"
  by (simp add: task_multipliers_def)

lemma simulate_inference_time_eq:
  "simulate_inference_time model =
     50 * (case size_mb model of None \<Rightarrow> 1 | Some s \<Rightarrow> 1 + (s / 1000) * 0.5) *
     (case map_of task_multipliers (task_type model) of None \<Rightarrow> 1.0 | Some x \<Rightarrow> x)"
  by (cases "size_mb model") (simp_all add: simulate_inference_time_def Let_def)

text \<open>
  Claim C5: the inference time of the collected sample is the base 50.0, multiplied by
  \<open>1 + (size_mb / 1000) * 0.5\<close> when a size is declared and by nothing when none is, then
  multiplied by the multiplier of the task (1.0 for a task outside the table); without a
  declared size the name plays no part, and for \<open>gpt2\<close> with task text-generation the
  result is 100.0.
\<close>

theorem collect_inference_time:
  "(\<exists>m c'. collect_metrics e c model = Inr (m, c') \<and>
      inference_time_ms m =
        50.0 * (case size_mb model of None \<Rightarrow> 1 | Some s \<Rightarrow> 1 + (s / 1000) * 0.5) *
        (if task_type model = ''text-generation'' then 2.0
         else if task_type model = ''text-classification'' then 1.0
         else if task_type model = ''question-answering'' then 1.5
         else if task_type model = ''summarization'' then 1.8
         else if task_type model = ''translation'' then 1.6
         else 1.0)) \<and>
   (size_mb model = None \<longrightarrow>
      simulate_inference_time model = simulate_inference_time (model\<lparr>name := other\<rparr>) \<and>
      simulate_inference_time model =
        50.0 * (case map_of task_multipliers (task_type model) of None \<Rightarrow> 1.0 | Some x \<Rightarrow> x)) \<and>
   (\<exists>m c'. collect_metrics e c gpt2 = Inr (m, c') \<and> inference_time_ms m = 100.0)"
proof (intro conjI impI)
  show "\<exists>m c'. collect_metrics e c model = Inr (m, c') \<and>
      inference_time_ms m =
        50.0 * (case size_mb model of None \<Rightarrow> 1 | Some s \<Rightarrow> 1 + (s / 1000) * 0.5) *
        (if task_type model = ''text-generation'' then 2.0
         else if task_type model = ''text-classification'' then 1.0
         else if task_type model = ''question-answering'' then 1.5
         else if task_type model = ''summarization'' then 1.8
         else if task_type model = ''translation'' then 1.6
         else 1.0)"
    unfolding collect_metrics_eq simulate_inference_time_eq task_multiplier_eq by simp
next
  assume "size_mb model = None"
  then show "simulate_inference_time model = simulate_inference_time (model\<lparr>name := other\<rparr>)"
    by (simp add: simulate_inference_time_eq)
next
  assume "size_mb model = None"
  then show "simulate_inference_time model =
        50.0 * (case map_of task_multipliers (task_type model) of None \<Rightarrow> 1.0 | Some x \<Rightarrow> x)"
    by (simp add: simulate_inference_time_eq)
next
  show "\<exists>m c'. collect_metrics e c gpt2 = Inr (m, c') \<and> inference_time_ms m = 100.0"
    unfolding collect_metrics_eq simulate_inference_time_eq task_multiplier_eq
    by (simp add: gpt2_def)
qed

text \<open>
  Witness for C5: the sample collected for \<open>gpt2\<close>, task text-generation, no declared
  size, has an inference time of 100.
\<close>

theorem collect_inference_time_witness:
  "(case collect_metrics quiet_env \<lparr>collection_history = []\<rparr> gpt2 of
      Inl ex \<Rightarrow> None
    | Inr (m, c') \<Rightarrow> Some (inference_time_ms m)) = Some 100 \<and>
   simulate_inference_time gpt2 = 100"
proof -
  have n: "size_mb gpt2 = None" by (simp add: gpt2_def)
  note t = collect_inference_time [of quiet_env "\<lparr>collection_history = []\<rparr>" gpt2]
  from t obtain m c' where
    "collect_metrics quiet_env \<lparr>collection_history = []\<rparr> gpt2 = Inr (m, c')"
    "inference_time_ms m = 100.0"
    by blast
  then have a: "(case collect_metrics quiet_env \<lparr>collection_history = []\<rparr> gpt2 of
      Inl ex \<Rightarrow> None
    | Inr (m, c') \<Rightarrow> Some (inference_time_ms m)) = Some 100"
    by simp
  from t n have "simulate_inference_time gpt2 =
      50.0 * (case map_of task_multipliers (task_type gpt2) of None \<Rightarrow> 1.0 | Some x \<Rightarrow> x)"
    by blast
  then have "simulate_inference_time gpt2 = 100"
    by (simp add: task_multiplier_eq gpt2_def)
  with a show ?thesis by blast
qed

lemma py_in_iff: "py_in p s \<longleftrightarrow> (\<exists>a b. s = a @ p @ b)"
proof -
  have sw: "starts_with p s \<longleftrightarrow> (\<exists>b. s = p @ b)" for p s
    by (induction p s rule: starts_with.induct) auto
  show ?thesis
  proof (induction s)
    case Nil
    show ?case by auto
  next
    case (Cons c cs)
    show ?case
    proof
      assume "py_in p (c # cs)"
      then consider "starts_with p (c # cs)" | "py_in p cs" by auto
      then show "\<exists>a b. c # cs = a @ p @ b"
      proof cases
        case 1
        then obtain b where "c # cs = p @ b" using sw by blast
        then have "c # cs = [] @ p @ b" by simp
        then show ?thesis by blast
      next
        case 2
        then obtain a b where "cs = a @ p @ b" using Cons.IH by blast
        then have "c # cs = (c # a) @ p @ b" by simp
        then show ?thesis by blast
      qed
    next
      assume "\<exists>a b. c # cs = a @ p @ b"
      then obtain a b where ab: "c # cs = a @ p @ b" by blast
      show "py_in p (c # cs)"
      proof (cases a)
        case Nil
        with ab have "starts_with p (c # cs)" using sw by auto
        then show ?thesis by simp
      next
        case (Cons x a')
        with ab have "cs = a' @ p @ b" by simp
        then have "py_in p cs" using Cons.IH by blast
        then show ?thesis by simp
      qed
    qed
  qed
qed

lemma collect_declared_size:
  assumes "size_mb model = Some s" and "s \<noteq> 0"
  shows "\<exists>m c'. collect_metrics e c model = Inr (m, c') \<and> model_size_mb m = s"
  unfolding collect_metrics_eq using assms by simp

lemma estimate_loop_first_match:
  "estimate_loop tbl model =
     (case filter (\<lambda>(p, s). py_in p (lower (name model))) tbl of
        [] \<Rightarrow> 300.0
      | (p, s) # rest \<Rightarrow> s)"
  by (induction tbl model rule: estimate_loop.induct) auto

lemma lower_distilbert: "lower ''distilbert-base-uncased'' = ''distilbert-base-uncased''"
  by (simp add: lower_def lower_char_def)

text \<open>
  Claim C6 at the model \<open>distilbert-base-uncased\<close> of \<^verbatim>\<open>Main.py\<close>, which declares no
  size: its name holds the patterns \<open>bert-base\<close> and \<open>distilbert\<close>; the loop returns at the
  first one in table order, so the collected size is 440, the size of \<open>bert-base\<close>, where
  the longest pattern found, \<open>distilbert\<close>, which is also the prefix of the name, gives 268.
\<close>

theorem estimate_model_size_distilbert:
  "(case collect_metrics quiet_env \<lparr>collection_history = []\<rparr> distilbert of
      Inl ex \<Rightarrow> None
    | Inr (m, c') \<Rightarrow> Some (model_size_mb m)) = Some 440 \<and>
   spec_estimate_model_size distilbert = 268 \<and>
   starts_with ''distilbert'' (lower (name distilbert)) \<and>
   \<not> starts_with ''bert-base'' (lower (name distilbert))"
proof -
  have "estimate_model_size distilbert = 440"
    by (simp add: estimate_model_size_def size_estimates_def distilbert_def lower_distilbert)
  moreover have "size_mb distilbert = None"
    by (simp add: distilbert_def)
  ultimately have "(case collect_metrics quiet_env \<lparr>collection_history = []\<rparr> distilbert of
      Inl ex \<Rightarrow> None
    | Inr (m, c') \<Rightarrow> Some (model_size_mb m)) = Some 440"
    unfolding collect_metrics_eq by simp
  moreover have "spec_estimate_model_size distilbert = 268"
    by (simp add: spec_estimate_model_size_def size_estimates_def distilbert_def lower_distilbert)
  moreover have "starts_with ''distilbert'' (lower (name distilbert))"
    and "\<not> starts_with ''bert-base'' (lower (name distilbert))"
    by (simp_all add: distilbert_def lower_distilbert)
  ultimately show ?thesis by blast
qed

end
